theory Spec2Isabelle
  imports Complex_Main "HOL-Library.Char_ord" "HOL-Library.List_Lexorder"
begin

section \<open>Tensor values\<close>

text \<open>
  The decoder of \<^verbatim>\<open>nmtpytorch/layers/condmm_decoder.py\<close> computes on float tensors.
  An element is a real number or one of the three non-finite values a float can take.
  Finite arithmetic is exact (rounding is not modelled, and there is no negative zero);
  the non-finite cases follow IEEE 754.
\<close>

datatype fp = Fin real | PInf | NInf | NaN

fun is_Fin :: "fp \<Rightarrow> bool" where
  "is_Fin (Fin _) = True"
| "is_Fin _ = False"

fun fadd :: "fp \<Rightarrow> fp \<Rightarrow> fp" where
  "fadd (Fin a) (Fin b) = Fin (a + b)"
| "fadd NaN _ = NaN"
| "fadd _ NaN = NaN"
| "fadd PInf NInf = NaN"
| "fadd NInf PInf = NaN"
| "fadd PInf _ = PInf"
| "fadd _ PInf = PInf"
| "fadd NInf _ = NInf"
| "fadd _ NInf = NInf"

fun fneg :: "fp \<Rightarrow> fp" where
  "fneg (Fin a) = Fin (- a)"
| "fneg PInf = NInf"
| "fneg NInf = PInf"
| "fneg NaN = NaN"

fun fdiv :: "fp \<Rightarrow> fp \<Rightarrow> fp" where
  "fdiv NaN _ = NaN"
| "fdiv _ NaN = NaN"
| "fdiv (Fin a) (Fin b) =
     (if b \<noteq> 0 then Fin (a / b)
      else if 0 < a then PInf else if a < 0 then NInf else NaN)"
| "fdiv (Fin a) _ = Fin 0"
| "fdiv PInf (Fin b) = (if 0 \<le> b then PInf else NInf)"
| "fdiv NInf (Fin b) = (if 0 \<le> b then NInf else PInf)"
| "fdiv _ _ = NaN"

type_synonym vec = "fp list"
type_synonym mat = "fp list list"
type_synonym tensor3 = "fp list list list"

text \<open>\<^verbatim>\<open>x.sum()\<close> over a list of elements, starting from zero.\<close>

definition fsum :: "fp list \<Rightarrow> fp" where
  "fsum xs = foldl fadd (Fin 0) xs"

text \<open>
  Shapes are read off the first element, as a dense tensor has one size per dimension.
  (A tensor with a zero-length first dimension therefore has all further sizes 0 here.)
\<close>

definition mat_dim1 :: "mat \<Rightarrow> nat" where
  "mat_dim1 m = (case m of [] \<Rightarrow> 0 | r # _ \<Rightarrow> length r)"

definition t3_dim1 :: "tensor3 \<Rightarrow> nat" where
  "t3_dim1 x = (case x of [] \<Rightarrow> 0 | p # _ \<Rightarrow> length p)"

definition t3_dim2 :: "tensor3 \<Rightarrow> nat" where
  "t3_dim2 x = (case x of [] \<Rightarrow> 0 | p # _ \<Rightarrow> mat_dim1 p)"

text \<open>\<^verbatim>\<open>x.sum(0)\<close> of an \<open>S*B*C\<close> tensor is the \<open>B*C\<close> matrix of sums over the positions.\<close>

definition t3_sum0 :: "tensor3 \<Rightarrow> mat" where
  "t3_sum0 x =
     map (\<lambda>b. map (\<lambda>c. fsum (map (\<lambda>p. p ! b ! c) x)) [0..<t3_dim2 x]) [0..<t3_dim1 x]"

text \<open>\<^verbatim>\<open>m.sum(0)\<close> of an \<open>S*B\<close> matrix is the vector of \<open>B\<close> column sums.\<close>

definition mat_sum0 :: "mat \<Rightarrow> vec" where
  "mat_sum0 m = map (\<lambda>b. fsum (map (\<lambda>r. r ! b) m)) [0..<mat_dim1 m]"

definition unsqueeze0 :: "'a \<Rightarrow> 'a list" where
  "unsqueeze0 x = [x]"

definition unsqueeze1 :: "'a list \<Rightarrow> 'a list list" where
  "unsqueeze1 v = map (\<lambda>x. [x]) v"

definition zeros :: "nat \<Rightarrow> nat \<Rightarrow> mat" where
  "zeros n k = replicate n (replicate k (Fin 0))"

definition tneg :: "mat \<Rightarrow> mat" where
  "tneg m = map (map fneg) m"

subsection \<open>Errors\<close>

datatype error =
    KeyError string
  | IndexError
  | RuntimeError
  | AttributeError
  | ValueError

text \<open>
  \<^verbatim>\<open>a / d\<close> for a \<open>B*C\<close> numerator and a denominator of one column (\<open>B'*1\<close>), with
  broadcasting: the column is stretched over the \<open>C\<close> columns, and a first dimension of
  size 1 is stretched to the other's; any other pair of sizes is a shape error.
\<close>

definition div_bcast :: "mat \<Rightarrow> mat \<Rightarrow> error + mat" where
  "div_bcast a d =
     (if length a = length d then
        Inr (map2 (\<lambda>row dr. map (\<lambda>x. fdiv x (hd dr)) row) a d)
      else if length d = 1 then
        Inr (map (\<lambda>row. map (\<lambda>x. fdiv x (hd (hd d))) row) a)
      else if length a = 1 then
        Inr (map (\<lambda>dr. map (\<lambda>x. fdiv x (hd dr)) (hd a)) d)
      else Inl RuntimeError)"

text \<open>\<^verbatim>\<open>xs[i]\<close> on the first dimension, for a non-negative index.\<close>

definition getitem :: "'a list \<Rightarrow> nat \<Rightarrow> error + 'a" where
  "getitem xs i = (if i < length xs then Inr (xs ! i) else Inl IndexError)"

text \<open>Running a fallible function over a list; the first failure is the result.\<close>

primrec traverse :: "('a \<Rightarrow> error + 'b) \<Rightarrow> 'a list \<Rightarrow> error + 'b list" where
  "traverse f [] = Inr []"
| "traverse f (x # xs) =
     (case f x of Inl e \<Rightarrow> Inl e
      | Inr v \<Rightarrow> (case traverse f xs of Inl e \<Rightarrow> Inl e | Inr vs \<Rightarrow> Inr (v # vs)))"

text \<open>
  \<^verbatim>\<open>F.log_softmax(x, dim=-1)\<close> on one row, by the stable formula
  \<open>x\<^sub>i - max - log (\<Sum>\<^sub>j exp (x\<^sub>j - max))\<close>: on finite scores it is \<open>x\<^sub>i - log (\<Sum>\<^sub>j exp x\<^sub>j)\<close>; a
  score of minus infinity has probability 0 and drops out of the sum; a NaN, a plus
  infinity or a row without a finite score makes the whole row NaN.
\<close>

definition finite_part :: "vec \<Rightarrow> real list" where
  "finite_part xs = concat (map (\<lambda>x. case x of Fin r \<Rightarrow> [r] | _ \<Rightarrow> []) xs)"

definition log_softmax_row :: "vec \<Rightarrow> vec" where
  "log_softmax_row xs =
     (if NaN \<in> set xs \<or> PInf \<in> set xs \<or> finite_part xs = [] then map (\<lambda>_. NaN) xs
      else map (\<lambda>x. case x of Fin r \<Rightarrow> Fin (r - ln (sum_list (map exp (finite_part xs))))
                      | _ \<Rightarrow> NInf) xs)"

definition log_softmax :: "mat \<Rightarrow> mat" where
  "log_softmax m = map log_softmax_row m"

text \<open>
  \<^verbatim>\<open>torch.gather(log_p, dim=1, index=idx)\<close> for \<open>idx\<close> of shape \<open>B*1\<close>: row \<open>b\<close> of the
  result is \<open>[log_p[b][idx[b][0]]]\<close>. The index must have as many rows as \<open>log_p\<close> and
  every index must be a column of \<open>log_p\<close>.
\<close>

definition gather_row :: "vec \<times> int list \<Rightarrow> error + vec" where
  "gather_row ri =
     traverse (\<lambda>i. if 0 \<le> i \<and> i < int (length (fst ri)) then Inr (fst ri ! nat i)
                   else Inl RuntimeError) (snd ri)"

definition gather1 :: "mat \<Rightarrow> int list list \<Rightarrow> error + mat" where
  "gather1 log_p idx =
     (if length idx = length log_p then traverse gather_row (zip log_p idx)
      else Inl RuntimeError)"

definition tsum :: "mat \<Rightarrow> fp" where
  "tsum m = fsum (concat m)"

section \<open>The decoder object\<close>

text \<open>
  The learned weight tensors are objects with an identity: two attributes can name the
  same tensor, and an in-place update of the tensor is seen through both. A \<open>store\<close>
  holds the current value of every weight object.
\<close>

datatype param = P_emb_weight | P_ff_dec_init_weight | P_hid2out_weight | P_out2prob_weight

type_synonym store = "param \<Rightarrow> mat"

text \<open>
  The collaborators \<^verbatim>\<open>Attention\<close>, \<^verbatim>\<open>Fusion\<close>, \<^verbatim>\<open>FF\<close>, \<^verbatim>\<open>nn.GRUCell\<close> and
  \<^verbatim>\<open>nn.Dropout\<close> are not part of this file of the repository; a constructed layer is the
  function it computes. An attention layer maps the query, the stream and its mask to the
  weights and the context vector; a recurrent cell maps the input and the previous hidden
  state (which Python may pass as \<^verbatim>\<open>None\<close>) to the next one; a feed-forward layer owns a
  weight object and computes from that weight's current value and the input; a dropout
  layer is one draw of its random mask. They are parameters of the model, so every
  statement below holds for whatever these layers compute.
\<close>

type_synonym attention = "tensor3 \<Rightarrow> tensor3 \<Rightarrow> mat option \<Rightarrow> mat \<times> mat"
type_synonym grucell = "mat \<Rightarrow> mat option \<Rightarrow> mat"

record ff_layer =
  ff_weight :: param
  ff_fn :: "mat \<Rightarrow> mat \<Rightarrow> mat"

record embedding =
  emb_weight :: param
  padding_idx :: nat

definition ff_call :: "ff_layer \<Rightarrow> store \<Rightarrow> mat \<Rightarrow> mat" where
  "ff_call l s x = ff_fn l (s (ff_weight l)) x"

text \<open>
  The embedding lookup \<^verbatim>\<open>self.emb(y)\<close> for a \<open>T*B\<close> tensor of token ids: the row of the
  table for each id; an id outside the table is an error.
\<close>

definition emb_row :: "mat \<Rightarrow> int \<Rightarrow> error + vec" where
  "emb_row w i = (if 0 \<le> i \<and> i < int (length w) then Inr (w ! nat i) else Inl RuntimeError)"

definition emb_call :: "embedding \<Rightarrow> store \<Rightarrow> int list list \<Rightarrow> error + tensor3" where
  "emb_call e s y = traverse (traverse (emb_row (s (emb_weight e)))) y"

text \<open>A context stream is the pair unpacked by \<^verbatim>\<open>*ctx_dict[k]\<close>: the tensor and its mask.\<close>

type_synonym stream = "tensor3 \<times> mat option"
type_synonym ctx_dict = "string \<Rightarrow> stream option"

record decoder =
  input_size :: nat
  hidden_size :: nat
  ctx_size_dict :: "(string \<times> nat) list"
  n_vocab :: nat
  tied_emb :: bool
  dec_init :: string
  att_type :: string
  att_bottleneck :: string
  att_activ :: string
  dropout_out :: real
  mod_order :: "string list"
  fusion :: "mat \<Rightarrow> mat \<Rightarrow> mat"
  emb :: embedding
  txt_att :: attention
  img_att :: attention
  ff_dec_init :: "ff_layer option"
  dec0 :: grucell
  dec1 :: grucell
  do_out :: "(mat \<Rightarrow> mat) option"
  hid2out :: ff_layer
  out2prob :: ff_layer

subsection \<open>Construction\<close>

text \<open>
  The arguments of \<^verbatim>\<open>__init__\<close>. The dictionary \<^verbatim>\<open>ctx_size_dict\<close> is the list of its items
  (with distinct keys).
\<close>

record args =
  a_input_size :: nat
  a_hidden_size :: nat
  a_ctx_size_dict :: "(string \<times> nat) list"
  a_n_vocab :: nat
  a_fusion_type :: string
  a_tied_emb :: bool
  a_dec_init :: string
  a_att_type :: string
  a_att_activ :: string
  a_att_bottleneck :: string
  a_dropout_out :: real

text \<open>
  The constructors of the collaborators, and the initial values their weights are given
  (random draws, so any values).
\<close>

record collaborators =
  mk_Fusion :: "string \<Rightarrow> nat \<Rightarrow> nat \<Rightarrow> mat \<Rightarrow> mat \<Rightarrow> mat"
  mk_Attention :: "nat \<Rightarrow> nat \<Rightarrow> string \<Rightarrow> string \<Rightarrow> string \<Rightarrow> attention"
  mk_FF :: "nat \<Rightarrow> nat \<Rightarrow> bool option \<Rightarrow> string option \<Rightarrow> mat \<Rightarrow> mat \<Rightarrow> mat"
  mk_GRUCell :: "nat \<Rightarrow> nat \<Rightarrow> grucell"
  mk_Dropout :: "real \<Rightarrow> mat \<Rightarrow> mat"
  normal_init :: "nat \<Rightarrow> nat \<Rightarrow> fp"
  ff_init :: "param \<Rightarrow> mat"

definition dict_get :: "(string \<times> 'v) list \<Rightarrow> string \<Rightarrow> error + 'v" where
  "dict_get d k = (case map_of d k of None \<Rightarrow> Inl (KeyError k) | Some v \<Rightarrow> Inr v)"

text \<open>
  \<^verbatim>\<open>nn.Embedding(num_embeddings, embedding_dim, padding_idx)\<close>: the table is drawn at
  random and the row at \<open>padding_idx\<close> is then filled with zeros, which needs that row to
  exist.
\<close>

definition nn_Embedding :: "(nat \<Rightarrow> nat \<Rightarrow> fp) \<Rightarrow> nat \<Rightarrow> nat \<Rightarrow> nat \<Rightarrow> error + mat" where
  "nn_Embedding draw num_embeddings embedding_dim pad =
     (if pad < num_embeddings then
        Inr ((map (\<lambda>i. map (draw i) [0..<embedding_dim]) [0..<num_embeddings])
               [pad := replicate embedding_dim (Fin 0)])
      else Inl IndexError)"

text \<open>
  \<^verbatim>\<open>__init__\<close>, in the order of the source. The result is the decoder together with the
  initial values of its weight objects. \<^verbatim>\<open>nn.Dropout(p)\<close>, built when \<open>p > 0\<close>, refuses
  \<open>p > 1\<close>.
\<close>

definition init :: "collaborators \<Rightarrow> args \<Rightarrow> error + decoder \<times> store" where
  "init K a =
     (let mod_order' = sort (map fst (a_ctx_size_dict a));
          fusion' = mk_Fusion K (a_fusion_type a) (2 * a_hidden_size a) (a_hidden_size a)
      in case nn_Embedding (normal_init K) (a_n_vocab a) (a_input_size a) 0 of
           Inl e \<Rightarrow> Inl e
         | Inr emb_w \<Rightarrow>
      (case dict_get (a_ctx_size_dict a) ''txt'' of
           Inl e \<Rightarrow> Inl e
         | Inr txt_size \<Rightarrow>
      (let txt_att' = mk_Attention K txt_size (a_hidden_size a)
                        (a_att_type a) (a_att_activ a) (a_att_bottleneck a)
       in case dict_get (a_ctx_size_dict a) ''img'' of
            Inl e \<Rightarrow> Inl e
          | Inr img_size \<Rightarrow>
      (let img_att' = mk_Attention K img_size (a_hidden_size a)
                        (a_att_type a) (a_att_activ a) (a_att_bottleneck a);
           ff_dec_init' =
             (if a_dec_init a = ''mean_ctx'' then
                Some \<lparr>ff_weight = P_ff_dec_init_weight,
                      ff_fn = mk_FF K txt_size (a_hidden_size a) None (Some ''tanh'')\<rparr>
              else None);
           dec0' = mk_GRUCell K (a_input_size a) (a_hidden_size a);
           dec1' = mk_GRUCell K (a_hidden_size a) (a_hidden_size a)
       in if 1 < a_dropout_out a then Inl ValueError
          else
      (let do_out' = (if a_dropout_out a > 0 then Some (mk_Dropout K (a_dropout_out a))
                      else None);
           hid2out' = \<lparr>ff_weight = P_hid2out_weight,
                       ff_fn = mk_FF K (a_hidden_size a) (a_input_size a)
                                 (Some True) (Some ''tanh'')\<rparr>;
           out2prob' = \<lparr>ff_weight = P_out2prob_weight,
                        ff_fn = mk_FF K (a_input_size a) (a_n_vocab a) None None\<rparr>;
           emb' = \<lparr>emb_weight = P_emb_weight, padding_idx = 0\<rparr>;
           out2prob'' = (if a_tied_emb a then out2prob'\<lparr>ff_weight := emb_weight emb'\<rparr>
                         else out2prob')
       in Inr (\<lparr>input_size = a_input_size a,
                 hidden_size = a_hidden_size a,
                 ctx_size_dict = a_ctx_size_dict a,
                 n_vocab = a_n_vocab a,
                 tied_emb = a_tied_emb a,
                 dec_init = a_dec_init a,
                 att_type = a_att_type a,
                 att_bottleneck = a_att_bottleneck a,
                 att_activ = a_att_activ a,
                 dropout_out = a_dropout_out a,
                 mod_order = mod_order',
                 fusion = fusion',
                 emb = emb',
                 txt_att = txt_att',
                 img_att = img_att',
                 ff_dec_init = ff_dec_init',
                 dec0 = dec0',
                 dec1 = dec1',
                 do_out = do_out',
                 hid2out = hid2out',
                 out2prob = out2prob''\<rparr>,
               (ff_init K)(P_emb_weight := emb_w)))))))"

section \<open>The operations\<close>

text \<open>
  Modelled from the spec: \<^verbatim>\<open>to_var\<close> of \<^verbatim>\<open>utils/data.py\<close> is not in the decoder's file.
  Under the zero policy the initial state is "a vector of zeros, not part of any
  differentiable path": \<^verbatim>\<open>to_var(h_0, requires_grad=False)\<close> wraps the tensor and leaves
  its values unchanged.
\<close>

definition to_var :: "mat \<Rightarrow> mat" where
  "to_var x = x"

text \<open>
  \<^verbatim>\<open>f_init\<close>. A \<^verbatim>\<open>dec_init\<close> that is neither \<^verbatim>\<open>'zero'\<close> nor \<^verbatim>\<open>'mean_ctx'\<close> falls through
  both branches and the function returns \<^verbatim>\<open>None\<close>.
\<close>

definition f_init :: "decoder \<Rightarrow> store \<Rightarrow> tensor3 \<Rightarrow> mat option \<Rightarrow> error + mat option" where
  "f_init D s txt_ctx txt_ctx_mask =
     (if dec_init D = ''zero'' then
        Inr (Some (to_var (zeros (t3_dim1 txt_ctx) (hidden_size D))))
      else if dec_init D = ''mean_ctx'' then
        (case ff_dec_init D of
           None \<Rightarrow> Inl AttributeError
         | Some ff \<Rightarrow>
             (case txt_ctx_mask of
                None \<Rightarrow> Inl AttributeError
              | Some m \<Rightarrow>
                  (case div_bcast (t3_sum0 txt_ctx) (unsqueeze1 (mat_sum0 m)) of
                     Inl e \<Rightarrow> Inl e
                   | Inr q \<Rightarrow> Inr (Some (ff_call ff s q)))))
      else Inr None)"

text \<open>\<^verbatim>\<open>f_next\<close>: one decoding step.\<close>

definition f_next ::
  "decoder \<Rightarrow> store \<Rightarrow> ctx_dict \<Rightarrow> mat \<Rightarrow> mat option \<Rightarrow> error + mat \<times> mat" where
  "f_next D s ctx_dict y h =
     (let h1 = dec0 D y h
      in case ctx_dict ''txt'' of
           None \<Rightarrow> Inl (KeyError ''txt'')
         | Some (txt_ctx, txt_mask) \<Rightarrow>
      (let (txt_alpha_t, txt_z_t) = txt_att D (unsqueeze0 h1) txt_ctx txt_mask
       in case ctx_dict ''image'' of
            None \<Rightarrow> Inl (KeyError ''image'')
          | Some (img_ctx, img_mask) \<Rightarrow>
      (let (img_alpha_t, img_z_t) = img_att D (unsqueeze0 h1) img_ctx img_mask;
           final_z_t = fusion D txt_z_t img_z_t;
           h2 = dec1 D final_z_t (Some h1);
           logit = ff_call (hid2out D) s h2
       in case (if dropout_out D > 0 then
                  (case do_out D of None \<Rightarrow> Inl AttributeError | Some d \<Rightarrow> Inr (d logit))
                else Inr logit) of
            Inl e \<Rightarrow> Inl e
          | Inr logit' \<Rightarrow>
              (let log_p = tneg (log_softmax (ff_call (out2prob D) s logit'))
               in Inr (log_p, h2)))))"

text \<open>
  The body of the loop of \<^verbatim>\<open>forward\<close> adds
  \<^verbatim>\<open>torch.gather(log_p, dim=1, index=y[t + 1].unsqueeze(1)).sum()\<close> to the loss.
\<close>

definition loss_term :: "mat \<Rightarrow> int list \<Rightarrow> error + fp" where
  "loss_term log_p y_next =
     (case gather1 log_p (unsqueeze1 y_next) of Inl e \<Rightarrow> Inl e | Inr g \<Rightarrow> Inr (tsum g))"

text \<open>The loop \<^verbatim>\<open>for t in range(y_emb.shape[0] - 1)\<close>, over the remaining values of \<open>t\<close>.\<close>

fun forward_loop ::
  "decoder \<Rightarrow> store \<Rightarrow> ctx_dict \<Rightarrow> tensor3 \<Rightarrow> int list list \<Rightarrow> nat list \<Rightarrow>
   mat option \<Rightarrow> fp \<Rightarrow> error + fp" where
  "forward_loop D s ctx_dict y_emb y [] h loss = Inr loss"
| "forward_loop D s ctx_dict y_emb y (t # ts) h loss =
     (case getitem y_emb t of
        Inl e \<Rightarrow> Inl e
      | Inr y_t \<Rightarrow>
          (case f_next D s ctx_dict y_t h of
             Inl e \<Rightarrow> Inl e
           | Inr (log_p, h') \<Rightarrow>
               (case getitem y (t + 1) of
                  Inl e \<Rightarrow> Inl e
                | Inr y_next \<Rightarrow>
                    (case loss_term log_p y_next of
                       Inl e \<Rightarrow> Inl e
                     | Inr l \<Rightarrow>
                         forward_loop D s ctx_dict y_emb y ts (Some h') (fadd loss l)))))"

text \<open>\<^verbatim>\<open>range(n)\<close> for a Python integer \<open>n\<close>: empty when \<open>n \<le> 0\<close>.\<close>

definition py_range :: "int \<Rightarrow> nat list" where
  "py_range n = [0..<nat n]"

text \<open>\<^verbatim>\<open>forward\<close>: the loss of a target sequence \<open>y\<close> of shape \<open>T*B\<close>.\<close>

definition forward :: "decoder \<Rightarrow> store \<Rightarrow> ctx_dict \<Rightarrow> int list list \<Rightarrow> error + fp" where
  "forward D s ctx_dict y =
     (case emb_call (emb D) s y of
        Inl e \<Rightarrow> Inl e
      | Inr y_emb \<Rightarrow>
          (case ctx_dict ''txt'' of
             None \<Rightarrow> Inl (KeyError ''txt'')
           | Some (txt_ctx, txt_mask) \<Rightarrow>
               (case f_init D s txt_ctx txt_mask of
                  Inl e \<Rightarrow> Inl e
                | Inr h \<Rightarrow>
                    forward_loop D s ctx_dict y_emb y
                      (py_range (int (length y_emb) - 1)) h (Fin 0))))"

section \<open>Reference notions\<close>


text \<open>
  The mean over the valid positions only, as the specification words it: for every batch
  element, the sum of the vectors at the positions whose mask is 1, divided by the number
  of those positions.
\<close>

definition valid_positions :: "mat \<Rightarrow> nat \<Rightarrow> nat list" where
  "valid_positions m b = filter (\<lambda>p. m ! p ! b = Fin 1) [0..<length m]"

definition masked_mean :: "tensor3 \<Rightarrow> mat \<Rightarrow> mat" where
  "masked_mean x m =
     map (\<lambda>b. map (\<lambda>c. fdiv (fsum (map (\<lambda>p. x ! p ! b ! c) (valid_positions m b)))
                             (Fin (real (length (valid_positions m b)))))
                [0..<t3_dim2 x])
         [0..<t3_dim1 x]"

text \<open>A mask holds 1 at a valid position and 0 at a padded one.\<close>

definition is_mask :: "mat \<Rightarrow> bool" where
  "is_mask m =
     (\<forall>p \<in> set [0..<length m]. \<forall>b \<in> set [0..<mat_dim1 m]. m ! p ! b = Fin 0 \<or> m ! p ! b = Fin 1)"

text \<open>The padded positions of the stream hold zero vectors.\<close>

definition zero_padded :: "tensor3 \<Rightarrow> mat \<Rightarrow> bool" where
  "zero_padded x m =
     (\<forall>p \<in> set [0..<length x]. \<forall>b \<in> set [0..<t3_dim1 x]. m ! p ! b = Fin 0 \<longrightarrow>
        (\<forall>c \<in> set [0..<t3_dim2 x]. x ! p ! b ! c = Fin 0))"


text \<open>An in-place update of one weight object, and a sequence of such updates.\<close>

definition param_update :: "store \<Rightarrow> param \<times> mat \<Rightarrow> store" where
  "param_update s u = s(fst u := snd u)"

definition param_updates :: "store \<Rightarrow> (param \<times> mat) list \<Rightarrow> store" where
  "param_updates s us = foldl param_update s us"

section \<open>A small instance\<close>

text \<open>
  One batch element, all widths 1 and a vocabulary of two tokens. The collaborators are
  simple total functions: attention adds the summed stream to the query, fusion and the
  cells add their arguments, a feed-forward layer adds the sum of the input row to the
  sum of each weight row, and dropout drops every unit.
\<close>

definition ex_att :: attention where
  "ex_att q ctx msk =
     ([], (case q of [] \<Rightarrow> t3_sum0 ctx | h # _ \<Rightarrow> map2 (map2 fadd) h (t3_sum0 ctx)))"

definition ex_cell :: grucell where
  "ex_cell x h = (case h of None \<Rightarrow> x | Some h' \<Rightarrow> map2 (map2 fadd) x h')"

definition ex_fusion :: "mat \<Rightarrow> mat \<Rightarrow> mat" where
  "ex_fusion a b = map2 (map2 fadd) a b"

definition ex_ff :: "mat \<Rightarrow> mat \<Rightarrow> mat" where
  "ex_ff w x = map (\<lambda>row. map (\<lambda>wr. fadd (fsum wr) (fsum row)) w) x"

definition ex_dropout :: "mat \<Rightarrow> mat" where
  "ex_dropout x = map (map (\<lambda>_. Fin 0)) x"

definition ex_weights :: store where
  "ex_weights p = (case p of P_out2prob_weight \<Rightarrow> [[Fin 0], [Fin 1]] | _ \<Rightarrow> [[Fin 0]])"

definition ex_K :: collaborators where
  "ex_K = \<lparr>mk_Fusion = (\<lambda>_ _ _. ex_fusion),
           mk_Attention = (\<lambda>_ _ _ _ _. ex_att),
           mk_FF = (\<lambda>_ _ _ _. ex_ff),
           mk_GRUCell = (\<lambda>_ _. ex_cell),
           mk_Dropout = (\<lambda>_. ex_dropout),
           normal_init = (\<lambda>_ _. Fin 1),
           ff_init = ex_weights\<rparr>"

definition ex_args :: args where
  "ex_args = \<lparr>a_input_size = 1, a_hidden_size = 1,
              a_ctx_size_dict = [(''txt'', 1), (''img'', 1)],
              a_n_vocab = 2, a_fusion_type = ''concat'', a_tied_emb = False,
              a_dec_init = ''zero'', a_att_type = ''mlp'', a_att_activ = ''tanh'',
              a_att_bottleneck = ''ctx'', a_dropout_out = 0\<rparr>"

definition ex_D :: decoder where
  "ex_D = \<lparr>input_size = 1, hidden_size = 1,
           ctx_size_dict = [(''txt'', 1), (''img'', 1)],
           n_vocab = 2, tied_emb = False, dec_init = ''zero'',
           att_type = ''mlp'', att_bottleneck = ''ctx'', att_activ = ''tanh'',
           dropout_out = 0, mod_order = [''img'', ''txt''],
           fusion = ex_fusion,
           emb = \<lparr>emb_weight = P_emb_weight, padding_idx = 0\<rparr>,
           txt_att = ex_att, img_att = ex_att,
           ff_dec_init = None,
           dec0 = ex_cell, dec1 = ex_cell,
           do_out = None,
           hid2out = \<lparr>ff_weight = P_hid2out_weight, ff_fn = ex_ff\<rparr>,
           out2prob = \<lparr>ff_weight = P_out2prob_weight, ff_fn = ex_ff\<rparr>\<rparr>"

definition ex_store :: store where
  "ex_store = ex_weights(P_emb_weight := [[Fin 0], [Fin 1]])"

text \<open>The same decoder built with \<^verbatim>\<open>dec_init='mean_ctx'\<close>.\<close>

definition ex_D_mean :: decoder where
  "ex_D_mean = ex_D\<lparr>dec_init := ''mean_ctx'',
                     ff_dec_init := Some \<lparr>ff_weight = P_ff_dec_init_weight, ff_fn = ex_ff\<rparr>\<rparr>"

text \<open>The same decoder built with \<^verbatim>\<open>tied_emb=True\<close>.\<close>

definition ex_D_tied :: decoder where
  "ex_D_tied = ex_D\<lparr>tied_emb := True,
                     out2prob := \<lparr>ff_weight = P_emb_weight, ff_fn = ex_ff\<rparr>\<rparr>"

text \<open>
  A context dictionary with the visual stream under the key \<^verbatim>\<open>'image'\<close>, and one with
  it under the key \<^verbatim>\<open>'img'\<close>.
\<close>

definition ex_ctx :: ctx_dict where
  "ex_ctx = [''txt'' \<mapsto> ([[[Fin 1]]], Some [[Fin 1]]), ''image'' \<mapsto> ([[[Fin 2]]], None)]"

definition ex_ctx_img :: ctx_dict where
  "ex_ctx_img = [''txt'' \<mapsto> ([[[Fin 1]]], Some [[Fin 1]]), ''img'' \<mapsto> ([[[Fin 2]]], None)]"

section \<open>Properties of the primitives\<close>

lemma finite_part_Fin: "list_all is_Fin xs \<Longrightarrow> map Fin (finite_part xs) = xs"
proof (induction xs)
  case Nil
  then show ?case by (simp add: finite_part_def)
next
  case (Cons x xs)
  then show ?case by (cases x) (simp_all add: finite_part_def)
qed

lemma finite_part_map_Fin: "finite_part (map Fin zs) = zs"
  by (induction zs) (simp_all add: finite_part_def)



lemma log_softmax_row_Fin:
  assumes "zs \<noteq> []"
  shows "log_softmax_row (map Fin zs) = map (\<lambda>z. Fin (z - ln (sum_list (map exp zs)))) zs"
proof -
  have "NaN \<notin> set (map Fin zs)" "PInf \<notin> set (map Fin zs)" by auto
  then show ?thesis using assms
    by (simp add: log_softmax_row_def finite_part_map_Fin comp_def del: set_map)
qed


text \<open>Finite scores give a finite row, so a row is finite exactly when its scores are.\<close>

lemma neg_log_softmax_row_of_finite:
  assumes "list_all is_Fin sc"
  shows "list_all is_Fin (map fneg (log_softmax_row sc))"
proof -
  from assms have "map Fin (finite_part sc) = sc" by (rule finite_part_Fin)
  then obtain zs where sc: "sc = map Fin zs" by metis
  show ?thesis
  proof (cases "zs = []")
    case True
    then show ?thesis by (simp add: sc log_softmax_row_def)
  next
    case False
    then show ?thesis
      unfolding sc log_softmax_row_Fin [OF False] by (simp add: list_all_iff)
  qed
qed

lemma traverse_length: "traverse f xs = Inr ys \<Longrightarrow> length ys = length xs"
  by (induction xs arbitrary: ys) (auto split: sum.splits)


lemma fadd_zero_right: "fadd a (Fin 0) = a"
  by (cases a) simp_all

lemma fadd_zero_left: "fadd (Fin 0) a = a"
  by (cases a) simp_all


lemma map_by_index: "map f xs = map (\<lambda>i. f (xs ! i)) [0..<length xs]"
  by (intro nth_equalityI) simp_all

lemma foldl_fadd_skip_zero:
  assumes "\<forall>i \<in> set is. \<not> P i \<longrightarrow> f i = Fin 0"
  shows "foldl fadd acc (map f is) = foldl fadd acc (map f (filter P is))"
  using assms by (induction "is" arbitrary: acc) (simp_all add: fadd_zero_right)

lemma foldl_fadd_count:
  assumes "\<forall>i \<in> set is. f i = Fin 0 \<or> f i = Fin 1"
  shows "foldl fadd (Fin a) (map f is) = Fin (a + real (length (filter (\<lambda>i. f i = Fin 1) is)))"
  using assms
proof (induction "is" arbitrary: a)
  case Nil
  then show ?case by simp
next
  case (Cons i "is")
  then have "f i = Fin 0 \<or> f i = Fin 1" by simp
  then show ?case
  proof
    assume "f i = Fin 0"
    with Cons show ?thesis by simp
  next
    assume "f i = Fin 1"
    with Cons show ?thesis by (simp add: add.assoc)
  qed
qed



section \<open>The small instance, evaluated\<close>

lemma ex_init: "init ex_K ex_args = Inr (ex_D, ex_store)"
  by (simp add: init_def ex_K_def ex_args_def ex_D_def ex_store_def nn_Embedding_def
      dict_get_def Let_def upt_conv_Cons)

lemma ex_init_mean: "init ex_K (ex_args\<lparr>a_dec_init := ''mean_ctx''\<rparr>) = Inr (ex_D_mean, ex_store)"
  by (simp add: init_def ex_K_def ex_args_def ex_D_def ex_D_mean_def ex_store_def nn_Embedding_def
      dict_get_def Let_def upt_conv_Cons)

lemma ex_init_tied: "init ex_K (ex_args\<lparr>a_tied_emb := True\<rparr>) = Inr (ex_D_tied, ex_store)"
  by (simp add: init_def ex_K_def ex_args_def ex_D_def ex_D_tied_def ex_store_def nn_Embedding_def
      dict_get_def Let_def upt_conv_Cons)

lemma t3_sum0_single: "t3_sum0 [[[Fin a]]] = [[Fin a]]"
  by (simp add: t3_sum0_def t3_dim1_def t3_dim2_def mat_dim1_def fsum_def)


lemma mat_sum0_single: "mat_sum0 [[Fin a]] = [Fin a]"
  by (simp add: mat_sum0_def mat_dim1_def fsum_def)


lemma ex_f_init_zero: "f_init ex_D s [[[Fin a]]] m = Inr (Some [[Fin 0]])"
  by (simp add: f_init_def ex_D_def to_var_def zeros_def t3_dim1_def)

lemma ex_f_init_mean:
  "f_init ex_D_mean ex_store [[[Fin 1]]] (Some [[Fin 1]]) = Inr (Some [[Fin 1]])"
  by (simp add: f_init_def ex_D_mean_def ex_D_def t3_sum0_single mat_sum0_single unsqueeze1_def
      div_bcast_def ff_call_def ex_ff_def ex_store_def ex_weights_def fsum_def)

lemma ex_emb_call:
  "emb_call (emb ex_D) ex_store [[1], [0]] = Inr [[[Fin 1]], [[Fin 0]]]"
  "emb_call (emb ex_D) ex_store [[1]] = Inr [[[Fin 1]]]"
  by (simp_all add: emb_call_def emb_row_def ex_D_def ex_store_def)




lemma ex_shapes:
  "t3_dim1 [[[Fin a]], [[Fin b]]] = 1" "t3_dim2 [[[Fin a]], [[Fin b]]] = 1"
  "mat_dim1 [[Fin a], [Fin b]] = 1"
  "t3_dim1 [[[Fin a]]] = 1" "t3_dim2 [[[Fin a]]] = 1" "mat_dim1 [[Fin a]] = 1"
  by (simp_all add: t3_dim1_def t3_dim2_def mat_dim1_def)

lemma ex_valid_positions:
  "valid_positions [[Fin 1], [Fin 0]] 0 = [0]" "valid_positions [[Fin 0]] 0 = []"
  by (simp_all add: valid_positions_def upt_conv_Cons)

lemma ex_ff_dec_init:
  "ff_call \<lparr>ff_weight = P_ff_dec_init_weight, ff_fn = ex_ff\<rparr> ex_store [[v]] = [[v]]"
  by (simp add: ff_call_def ex_ff_def ex_store_def ex_weights_def fsum_def fadd_zero_left)

section \<open>Construction\<close>

text \<open>What a successful construction fixes.\<close>

lemma init_fields:
  assumes "init K a = Inr (D, s0)"
  shows "dec_init D = a_dec_init a"
    and "emb_weight (emb D) = P_emb_weight"
    and "ff_weight (out2prob D) = (if a_tied_emb a then P_emb_weight else P_out2prob_weight)"
    and "\<exists>n. map_of (a_ctx_size_dict a) ''img'' = Some n"
    and "\<exists>n. map_of (a_ctx_size_dict a) ''txt'' = Some n"
    and "0 < a_n_vocab a"
    and "length (s0 P_emb_weight) = a_n_vocab a"
    and "s0 P_emb_weight ! 0 = replicate (a_input_size a) (Fin 0)"
  using assms
  by (auto simp: init_def Let_def dict_get_def nn_Embedding_def
      split: sum.splits if_splits option.splits)

text \<open>
  Claim C9, as the code has it. A \<^verbatim>\<open>dec_init\<close> other than \<^verbatim>\<open>'zero'\<close> and \<^verbatim>\<open>'mean_ctx'\<close>
  is not refused by \<^verbatim>\<open>__init__\<close>: construction fails or succeeds exactly as it does for
  \<^verbatim>\<open>'zero'\<close>, and yields the same decoder but for the stored \<^verbatim>\<open>dec_init\<close>. At first
  use, \<open>f_init\<close> raises nothing either: it returns \<^verbatim>\<open>None\<close>.
\<close>

theorem unknown_dec_init_accepted:
  assumes "a_dec_init a \<noteq> ''zero''" and "a_dec_init a \<noteq> ''mean_ctx''"
  shows "init K a =
           (case init K (a\<lparr>a_dec_init := ''zero''\<rparr>) of
              Inl e \<Rightarrow> Inl e
            | Inr (D, s0) \<Rightarrow> Inr (D\<lparr>dec_init := a_dec_init a\<rparr>, s0)) \<and>
         (\<forall>D s0 s txt_ctx txt_mask.
            init K a = Inr (D, s0) \<longrightarrow> f_init D s txt_ctx txt_mask = Inr None)"
proof
  show "init K a =
           (case init K (a\<lparr>a_dec_init := ''zero''\<rparr>) of
              Inl e \<Rightarrow> Inl e
            | Inr (D, s0) \<Rightarrow> Inr (D\<lparr>dec_init := a_dec_init a\<rparr>, s0))"
    using assms by (simp add: init_def Let_def split: sum.splits)
next
  show "\<forall>D s0 s txt_ctx txt_mask.
            init K a = Inr (D, s0) \<longrightarrow> f_init D s txt_ctx txt_mask = Inr None"
  proof (intro allI impI)
    fix D s0 s txt_ctx txt_mask
    assume "init K a = Inr (D, s0)"
    then have "dec_init D = a_dec_init a" by (rule init_fields(1))
    with assms show "f_init D s txt_ctx txt_mask = Inr None"
      by (simp add: f_init_def)
  qed
qed

theorem unknown_dec_init_accepted_witness:
  "a_dec_init (ex_args\<lparr>a_dec_init := ''mean''\<rparr>) \<noteq> ''zero'' \<and>
   a_dec_init (ex_args\<lparr>a_dec_init := ''mean''\<rparr>) \<noteq> ''mean_ctx'' \<and>
   init ex_K (ex_args\<lparr>a_dec_init := ''mean''\<rparr>) = Inr (ex_D\<lparr>dec_init := ''mean''\<rparr>, ex_store) \<and>
   f_init (ex_D\<lparr>dec_init := ''mean''\<rparr>) ex_store [[[Fin 1]]] (Some [[Fin 1]]) = Inr None"
proof -
  have z: "a_dec_init (ex_args\<lparr>a_dec_init := ''mean''\<rparr>) \<noteq> ''zero''"
    and m: "a_dec_init (ex_args\<lparr>a_dec_init := ''mean''\<rparr>) \<noteq> ''mean_ctx''"
    by simp_all
  have e: "ex_args\<lparr>a_dec_init := ''mean'', a_dec_init := ''zero''\<rparr> = ex_args"
    by (simp add: ex_args_def)
  from unknown_dec_init_accepted [OF z m, of ex_K] ex_init
  have i: "init ex_K (ex_args\<lparr>a_dec_init := ''mean''\<rparr>) = Inr (ex_D\<lparr>dec_init := ''mean''\<rparr>, ex_store)"
    and f: "\<forall>D s0 s txt_ctx txt_mask.
            init ex_K (ex_args\<lparr>a_dec_init := ''mean''\<rparr>) = Inr (D, s0) \<longrightarrow>
            f_init D s txt_ctx txt_mask = Inr None"
    by (simp_all add: e)
  from f i have "f_init (ex_D\<lparr>dec_init := ''mean''\<rparr>) ex_store [[[Fin 1]]] (Some [[Fin 1]]) = Inr None"
    by blast
  with i show ?thesis by simp
qed

text \<open>
  The claim as stated (an unrecognised \<^verbatim>\<open>dec_init\<close> is fatal at construction) fails:
  the value \<^verbatim>\<open>'foo'\<close> is accepted.
\<close>

theorem unknown_dec_init_counterexample:
  "init ex_K (ex_args\<lparr>a_dec_init := ''foo''\<rparr>) = Inr (ex_D\<lparr>dec_init := ''foo''\<rparr>, ex_store) \<and>
   f_init (ex_D\<lparr>dec_init := ''foo''\<rparr>) ex_store [[[Fin 1]]] (Some [[Fin 1]]) = Inr None"
  by (simp add: init_def ex_K_def ex_args_def ex_D_def ex_store_def nn_Embedding_def
      dict_get_def Let_def upt_conv_Cons f_init_def)

text \<open>
  Claim C6. With \<^verbatim>\<open>tied_emb\<close> the vocabulary projection's weight and the embedding table
  are one weight object: after any sequence of in-place updates both attributes read the
  same tensor, so the embedding row of a token and the projection row of that token are
  the same; an update made through either is read through the other; and the projection
  computes with the embedding table. The operations \<open>f_init\<close>, \<open>f_next\<close> and \<open>forward\<close>
  take the decoder and the store and return neither, so they cannot break the sharing.
\<close>

theorem tied_emb_alias:
  assumes "init K a = Inr (D, s0)" and "a_tied_emb a"
  shows "ff_weight (out2prob D) = emb_weight (emb D) \<and>
         param_updates s0 us (ff_weight (out2prob D)) = param_updates s0 us (emb_weight (emb D)) \<and>
         emb_row (param_updates s0 us (ff_weight (out2prob D))) i =
           emb_row (param_updates s0 us (emb_weight (emb D))) i \<and>
         param_update s (emb_weight (emb D), w) (ff_weight (out2prob D)) = w \<and>
         param_update s (ff_weight (out2prob D), w) (emb_weight (emb D)) = w \<and>
         ff_call (out2prob D) s x = ff_fn (out2prob D) (s (emb_weight (emb D))) x"
proof -
  have "ff_weight (out2prob D) = emb_weight (emb D)"
    using init_fields(2,3) [OF assms(1)] assms(2) by simp
  then show ?thesis by (simp add: param_update_def ff_call_def)
qed

theorem tied_emb_alias_witness:
  "init ex_K (ex_args\<lparr>a_tied_emb := True\<rparr>) = Inr (ex_D_tied, ex_store) \<and>
   a_tied_emb (ex_args\<lparr>a_tied_emb := True\<rparr>) \<and>
   ff_weight (out2prob ex_D_tied) = emb_weight (emb ex_D_tied) \<and>
   param_updates ex_store [(P_emb_weight, [[Fin 0], [Fin 5]])] (ff_weight (out2prob ex_D_tied)) =
     [[Fin 0], [Fin 5]] \<and>
   emb_row (param_updates ex_store [(P_emb_weight, [[Fin 0], [Fin 5]])]
              (ff_weight (out2prob ex_D_tied))) 1 = Inr [Fin 5]"
proof -
  have t: "a_tied_emb (ex_args\<lparr>a_tied_emb := True\<rparr>)" by simp
  show ?thesis
    using tied_emb_alias [OF ex_init_tied t, where us = "[(P_emb_weight, [[Fin 0], [Fin 5]])]"
        and i = 1] ex_init_tied
    by (simp add: param_updates_def param_update_def ex_D_tied_def ex_D_def emb_row_def)
qed

section \<open>The decoding step\<close>

text \<open>
  Claim C2. A call of \<open>f_next\<close> with both streams present computes, in this order of
  dependency: \<open>h1\<close> from the first cell on the previous-token embedding and the previous
  hidden state; the textual and the visual context vector, both from attention queried
  with \<open>h1\<close> (not with \<open>h\<close>); their fusion; \<open>h2\<close> from the second cell on the fused
  context and \<open>h1\<close>; the bottleneck of \<open>h2\<close>, dropout when it is enabled, and the
  vocabulary projection, normalised and negated. The hidden state returned is \<open>h2\<close>.
\<close>

theorem f_next_order:
  assumes "ctx ''txt'' = Some (txt_ctx, txt_mask)"
      and "ctx ''image'' = Some (img_ctx, img_mask)"
      and "0 < dropout_out D \<longrightarrow> do_out D = Some d"
  shows "f_next D s ctx y h =
     (let h1 = dec0 D y h;
          txt_z = snd (txt_att D [h1] txt_ctx txt_mask);
          img_z = snd (img_att D [h1] img_ctx img_mask);
          z = fusion D txt_z img_z;
          h2 = dec1 D z (Some h1);
          b = ff_call (hid2out D) s h2;
          b' = (if 0 < dropout_out D then d b else b)
      in Inr (tneg (log_softmax (ff_call (out2prob D) s b')), h2))"
  using assms
  by (simp add: f_next_def Let_def unsqueeze0_def split: prod.splits)

theorem f_next_order_witness:
  "ex_ctx ''txt'' = Some ([[[Fin 1]]], Some [[Fin 1]]) \<and>
   ex_ctx ''image'' = Some ([[[Fin 2]]], None) \<and>
   dropout_out ex_D = 0 \<and>
   f_next ex_D ex_store ex_ctx [[Fin 1]] (Some [[Fin 0]]) =
     Inr (tneg (log_softmax [[Fin 6, Fin 7]]), [[Fin 6]])"
proof -
  have t: "ex_ctx ''txt'' = Some ([[[Fin 1]]], Some [[Fin 1]])"
    and i: "ex_ctx ''image'' = Some ([[[Fin 2]]], None)"
    by (simp_all add: ex_ctx_def)
  have d: "0 < dropout_out ex_D \<longrightarrow> do_out ex_D = Some ex_dropout"
    by (simp add: ex_D_def)
  have z: "dropout_out ex_D = 0"
    by (simp add: ex_D_def)
  show ?thesis
    using f_next_order [OF t i d, of ex_store "[[Fin 1]]" "Some [[Fin 0]]"] t i z
    by (simp add: ex_D_def ex_store_def ex_cell_def ex_att_def ex_fusion_def
      ex_ff_def ex_weights_def ff_call_def t3_sum0_single fsum_def Let_def)
qed




section \<open>The loss of a target sequence\<close>









text \<open>
  Claim C8, as the code has it. A target sequence of length 0 is not refused: \<open>forward\<close>
  embeds it, reads the textual stream, calls \<open>f_init\<close>, runs the loop zero times and
  returns the loss 0. The only errors are a missing textual stream and those of \<open>f_init\<close>.
\<close>

theorem forward_empty_target:
  "forward D s ctx [] =
     (case ctx ''txt'' of
        None \<Rightarrow> Inl (KeyError ''txt'')
      | Some (txt_ctx, txt_mask) \<Rightarrow>
          (case f_init D s txt_ctx txt_mask of Inl e \<Rightarrow> Inl e | Inr h \<Rightarrow> Inr (Fin 0)))"
  by (simp add: forward_def emb_call_def py_range_def split: option.splits sum.splits)

theorem forward_empty_target_witness:
  "forward ex_D_mean ex_store ex_ctx [] = Inr (Fin 0)"
  using forward_empty_target [of ex_D_mean ex_store ex_ctx] ex_f_init_mean
  by (simp add: ex_ctx_def)

text \<open>The claim as stated (a target of length 0 is rejected) fails: a loss is returned.\<close>

theorem forward_empty_target_counterexample:
  "forward ex_D ex_store ex_ctx [] = Inr (Fin 0)"
  by (simp add: forward_def emb_call_def py_range_def ex_ctx_def ex_f_init_zero)

text \<open>
  Claim C10, as the code has it. \<^verbatim>\<open>__init__\<close> reads the visual width under the key
  \<^verbatim>\<open>'img'\<close>, and \<open>f_next\<close> reads the visual stream under the key \<^verbatim>\<open>'image'\<close>. With a
  context dictionary that has no key \<^verbatim>\<open>'image'\<close>, every call of \<open>f_next\<close> fails with a
  missing-key error. \<open>forward\<close> fails with it when it reaches the loop body, that is for a
  target sequence of length at least 2 whose embedding and initial state are computed;
  for a shorter target it makes no call of \<open>f_next\<close> and returns the loss 0.
\<close>

theorem visual_key_mismatch:
  assumes "ctx ''image'' = None"
  shows "f_next D s ctx y_t h =
           Inl (KeyError (if ctx ''txt'' = None then ''txt'' else ''image'')) \<and>
         (emb_call (emb D) s y = Inr y_emb \<and> ctx ''txt'' = Some (txt_ctx, txt_mask) \<and>
          f_init D s txt_ctx txt_mask = Inr h0 \<longrightarrow>
            forward D s ctx y =
              (if 2 \<le> length y then Inl (KeyError ''image'') else Inr (Fin 0))) \<and>
         (init K a = Inr (D', s0) \<longrightarrow> (\<exists>n. map_of (a_ctx_size_dict a) ''img'' = Some n))"
proof (intro conjI impI)
  show step: "f_next D s ctx y_t h =
      Inl (KeyError (if ctx ''txt'' = None then ''txt'' else ''image''))" for y_t h
    using assms by (simp add: f_next_def Let_def split: option.splits prod.splits)
  show "\<exists>n. map_of (a_ctx_size_dict a) ''img'' = Some n" if "init K a = Inr (D', s0)"
    using that by (rule init_fields(4))
  show "forward D s ctx y = (if 2 \<le> length y then Inl (KeyError ''image'') else Inr (Fin 0))"
    if pre: "emb_call (emb D) s y = Inr y_emb \<and> ctx ''txt'' = Some (txt_ctx, txt_mask) \<and>
          f_init D s txt_ctx txt_mask = Inr h0"
  proof -
    from pre have len: "length y_emb = length y"
      by (auto simp: emb_call_def dest: traverse_length)
    have fwd: "forward D s ctx y =
        forward_loop D s ctx y_emb y (py_range (int (length y) - 1)) h0 (Fin 0)"
      using pre len by (simp add: forward_def)
    show ?thesis
    proof (cases "2 \<le> length y")
      case True
      then obtain n where n: "nat (int (length y) - 1) = Suc n"
        by (cases "nat (int (length y) - 1)") auto
      have "py_range (int (length y) - 1) = 0 # [1..<Suc n]"
        unfolding py_range_def n by (simp add: upt_conv_Cons)
      moreover have "getitem y_emb 0 = Inr (y_emb ! 0)"
        using True len by (cases y_emb) (auto simp: getitem_def)
      ultimately show ?thesis using True fwd step pre by simp
    next
      case False
      then have "py_range (int (length y) - 1) = []"
        by (simp add: py_range_def)
      with False fwd show ?thesis by simp
    qed
  qed
qed

theorem visual_key_mismatch_witness:
  "ex_ctx_img ''image'' = None \<and>
   f_next ex_D ex_store ex_ctx_img [[Fin 1]] (Some [[Fin 0]]) = Inl (KeyError ''image'') \<and>
   forward ex_D ex_store ex_ctx_img [[1], [0]] = Inl (KeyError ''image'') \<and>
   map_of (a_ctx_size_dict ex_args) ''img'' = Some 1"
proof -
  have n: "ex_ctx_img ''image'' = None"
    and t: "ex_ctx_img ''txt'' = Some ([[[Fin 1]]], Some [[Fin 1]])"
    by (simp_all add: ex_ctx_img_def)
  from visual_key_mismatch [where ctx = ex_ctx_img and D = ex_D and s = ex_store
      and y_t = "[[Fin 1]]" and h = "Some [[Fin 0]]" and y = "[[1], [0]]"
      and y_emb = "[[[Fin 1]], [[Fin 0]]]" and txt_ctx = "[[[Fin 1]]]"
      and txt_mask = "Some [[Fin 1]]" and ?h0.0 = "Some [[Fin 0]]"
      and K = ex_K and a = ex_args and D' = ex_D and ?s0.0 = ex_store, OF n]
    ex_emb_call(1) t ex_f_init_zero ex_init
  show ?thesis using n by (simp add: ex_args_def)
qed

text \<open>
  The claim as stated (every call of \<open>forward\<close> with the visual stream under \<^verbatim>\<open>'img'\<close>
  fails) fails for a target sequence of length 1.
\<close>

theorem visual_key_mismatch_counterexample:
  "ex_ctx_img ''image'' = None \<and>
   ex_ctx_img ''img'' = Some ([[[Fin 2]]], None) \<and>
   forward ex_D ex_store ex_ctx_img [[1]] = Inr (Fin 0)"
  by (simp add: forward_def ex_emb_call(2) py_range_def ex_ctx_img_def ex_f_init_zero)

section \<open>The initial hidden state\<close>

text \<open>
  The column sum of a mask counts the valid positions, and where the padded positions of
  the stream hold zeros the sum over all positions is the sum over the valid ones.
\<close>

lemma mask_column_sum:
  assumes "is_mask m" and "b < mat_dim1 m"
  shows "fsum (map (\<lambda>r. r ! b) m) = Fin (real (length (valid_positions m b)))"
proof -
  have "map (\<lambda>r. r ! b) m = map (\<lambda>p. m ! p ! b) [0..<length m]"
    by (rule map_by_index)
  moreover have "\<forall>p \<in> set [0..<length m]. m ! p ! b = Fin 0 \<or> m ! p ! b = Fin 1"
    using assms by (auto simp: is_mask_def)
  ultimately show ?thesis
    unfolding fsum_def valid_positions_def
    using foldl_fadd_count [of "[0..<length m]" "\<lambda>p. m ! p ! b" 0] by simp
qed

lemma stream_column_sum:
  assumes "is_mask m" and "zero_padded x m" and "length m = length x"
    and "mat_dim1 m = t3_dim1 x" and "b < t3_dim1 x" and "c < t3_dim2 x"
  shows "fsum (map (\<lambda>p. p ! b ! c) x) = fsum (map (\<lambda>p. x ! p ! b ! c) (valid_positions m b))"
proof -
  have "map (\<lambda>p. p ! b ! c) x = map (\<lambda>p. x ! p ! b ! c) [0..<length x]"
    by (rule map_by_index)
  moreover have "\<forall>p \<in> set [0..<length x]. \<not> m ! p ! b = Fin 1 \<longrightarrow> x ! p ! b ! c = Fin 0"
  proof (intro ballI impI)
    fix p assume p: "p \<in> set [0..<length x]" and "m ! p ! b \<noteq> Fin 1"
    moreover from p assms have "m ! p ! b = Fin 0 \<or> m ! p ! b = Fin 1"
      by (auto simp: is_mask_def)
    ultimately have "m ! p ! b = Fin 0" by blast
    with assms p show "x ! p ! b ! c = Fin 0"
      by (auto simp: zero_padded_def)
  qed
  ultimately show ?thesis
    unfolding fsum_def valid_positions_def assms(3)
    using foldl_fadd_skip_zero [of "[0..<length x]" "\<lambda>p. m ! p ! b = Fin 1" "\<lambda>p. x ! p ! b ! c" "Fin 0"]
    by simp
qed

text \<open>
  With \<^verbatim>\<open>dec_init='mean_ctx'\<close> and a mask of the stream's batch size, \<open>f_init\<close> divides the
  sum over all positions by the column sum of the mask and projects the quotient.
\<close>

lemma f_init_mean_eq:
  assumes "dec_init D = ''mean_ctx''" and "ff_dec_init D = Some ff"
    and "mat_dim1 m = t3_dim1 x"
  shows "f_init D s x (Some m) =
     Inr (Some (ff_call ff s
       (map (\<lambda>b. map (\<lambda>c. fdiv (fsum (map (\<lambda>p. p ! b ! c) x)) (fsum (map (\<lambda>r. r ! b) m)))
                      [0..<t3_dim2 x])
            [0..<t3_dim1 x])))"
proof -
  have "div_bcast (t3_sum0 x) (unsqueeze1 (mat_sum0 m)) =
      Inr (map (\<lambda>b. map (\<lambda>c. fdiv (fsum (map (\<lambda>p. p ! b ! c) x)) (fsum (map (\<lambda>r. r ! b) m)))
                      [0..<t3_dim2 x])
            [0..<t3_dim1 x])"
    using assms(3)
    by (simp add: div_bcast_def t3_sum0_def mat_sum0_def unsqueeze1_def zip_map_map
        zip_same_conv_map comp_def)
  with assms(1,2) show ?thesis by (simp add: f_init_def)
qed

text \<open>
  Claim C3, as the code has it. With \<^verbatim>\<open>dec_init='mean_ctx'\<close>, \<open>f_init\<close> returns the
  projection of, for every batch element, the sum of the vectors at all textual positions
  (padding included) divided by the sum of the mask, which for a mask of zeros and ones is
  the count of valid positions. Where the padded positions hold zero vectors this is the
  mean over the valid positions only.
\<close>

theorem f_init_mean_ctx:
  assumes "dec_init D = ''mean_ctx''" and "ff_dec_init D = Some ff"
    and "length m = length x" and "mat_dim1 m = t3_dim1 x"
  shows "f_init D s x (Some m) =
           Inr (Some (ff_call ff s
             (map (\<lambda>b. map (\<lambda>c. fdiv (fsum (map (\<lambda>p. p ! b ! c) x))
                                      (fsum (map (\<lambda>r. r ! b) m)))
                            [0..<t3_dim2 x])
                  [0..<t3_dim1 x]))) \<and>
         (is_mask m \<and> zero_padded x m \<longrightarrow>
            f_init D s x (Some m) = Inr (Some (ff_call ff s (masked_mean x m))))"
proof (intro conjI impI)
  show eq: "f_init D s x (Some m) =
           Inr (Some (ff_call ff s
             (map (\<lambda>b. map (\<lambda>c. fdiv (fsum (map (\<lambda>p. p ! b ! c) x))
                                      (fsum (map (\<lambda>r. r ! b) m)))
                            [0..<t3_dim2 x])
                  [0..<t3_dim1 x])))"
    using assms(1,2,4) by (rule f_init_mean_eq)
  assume pad: "is_mask m \<and> zero_padded x m"
  have "map (\<lambda>b. map (\<lambda>c. fdiv (fsum (map (\<lambda>p. p ! b ! c) x)) (fsum (map (\<lambda>r. r ! b) m)))
                      [0..<t3_dim2 x])
            [0..<t3_dim1 x] = masked_mean x m"
    unfolding masked_mean_def
  proof (intro map_cong refl)
    fix b c assume "b \<in> set [0..<t3_dim1 x]" and "c \<in> set [0..<t3_dim2 x]"
    then have b: "b < t3_dim1 x" and c: "c < t3_dim2 x" by simp_all
    from pad b assms(4)
    have "fsum (map (\<lambda>r. r ! b) m) = Fin (real (length (valid_positions m b)))"
      by (simp add: mask_column_sum)
    moreover from pad assms(3,4) b c
    have "fsum (map (\<lambda>p. p ! b ! c) x) = fsum (map (\<lambda>p. x ! p ! b ! c) (valid_positions m b))"
      by (simp add: stream_column_sum)
    ultimately
    show "fdiv (fsum (map (\<lambda>p. p ! b ! c) x)) (fsum (map (\<lambda>r. r ! b) m)) =
          fdiv (fsum (map (\<lambda>p. x ! p ! b ! c) (valid_positions m b)))
               (Fin (real (length (valid_positions m b))))"
      by simp
  qed
  with eq show "f_init D s x (Some m) = Inr (Some (ff_call ff s (masked_mean x m)))"
    by simp
qed

theorem f_init_mean_ctx_witness:
  "dec_init ex_D_mean = ''mean_ctx'' \<and>
   ff_dec_init ex_D_mean = Some \<lparr>ff_weight = P_ff_dec_init_weight, ff_fn = ex_ff\<rparr> \<and>
   length [[Fin 1], [Fin 0]] = length [[[Fin 3]], [[Fin 0]]] \<and>
   mat_dim1 [[Fin 1], [Fin 0]] = t3_dim1 [[[Fin 3]], [[Fin 0]]] \<and>
   is_mask [[Fin 1], [Fin 0]] \<and>
   zero_padded [[[Fin 3]], [[Fin 0]]] [[Fin 1], [Fin 0]] \<and>
   masked_mean [[[Fin 3]], [[Fin 0]]] [[Fin 1], [Fin 0]] = [[Fin 3]] \<and>
   f_init ex_D_mean ex_store [[[Fin 3]], [[Fin 0]]] (Some [[Fin 1], [Fin 0]]) = Inr (Some [[Fin 3]])"
proof -
  have d: "dec_init ex_D_mean = ''mean_ctx''"
    and f: "ff_dec_init ex_D_mean = Some \<lparr>ff_weight = P_ff_dec_init_weight, ff_fn = ex_ff\<rparr>"
    by (simp_all add: ex_D_mean_def)
  have l: "length [[Fin 1], [Fin 0]] = length [[[Fin 3]], [[Fin 0]]]" by simp
  have b: "mat_dim1 [[Fin 1], [Fin 0]] = t3_dim1 [[[Fin 3]], [[Fin 0]]]"
    by (simp add: ex_shapes)
  have k: "is_mask [[Fin 1], [Fin 0]]"
    by (simp add: is_mask_def ex_shapes upt_conv_Cons)
  have z: "zero_padded [[[Fin 3]], [[Fin 0]]] [[Fin 1], [Fin 0]]"
    by (simp add: zero_padded_def ex_shapes upt_conv_Cons)
  have mm: "masked_mean [[[Fin 3]], [[Fin 0]]] [[Fin 1], [Fin 0]] = [[Fin 3]]"
    by (simp add: masked_mean_def ex_shapes ex_valid_positions fsum_def)
  from f_init_mean_ctx [OF d f l b, of ex_store]
  have "is_mask [[Fin 1], [Fin 0]] \<and> zero_padded [[[Fin 3]], [[Fin 0]]] [[Fin 1], [Fin 0]] \<longrightarrow>
      f_init ex_D_mean ex_store [[[Fin 3]], [[Fin 0]]] (Some [[Fin 1], [Fin 0]]) =
      Inr (Some (ff_call \<lparr>ff_weight = P_ff_dec_init_weight, ff_fn = ex_ff\<rparr> ex_store
             (masked_mean [[[Fin 3]], [[Fin 0]]] [[Fin 1], [Fin 0]])))"
    by (rule conjunct2)
  with k z
  have "f_init ex_D_mean ex_store [[[Fin 3]], [[Fin 0]]] (Some [[Fin 1], [Fin 0]]) =
      Inr (Some [[Fin 3]])"
    by (simp add: mm ex_ff_dec_init)
  with d f l b k z mm show ?thesis by blast
qed

text \<open>
  The claim as stated (the numerator is the sum of the valid position vectors) fails when
  a padded position holds a non-zero vector: with the vectors 1 (valid) and 5 (padded) the
  mean over the valid positions is 1, and \<open>f_init\<close> projects 6.
\<close>

theorem f_init_mean_ctx_counterexample:
  "f_init ex_D_mean ex_store [[[Fin 1]], [[Fin 5]]] (Some [[Fin 1], [Fin 0]]) =
     Inr (Some [[Fin 6]]) \<and>
   masked_mean [[[Fin 1]], [[Fin 5]]] [[Fin 1], [Fin 0]] = [[Fin 1]] \<and>
   ff_call \<lparr>ff_weight = P_ff_dec_init_weight, ff_fn = ex_ff\<rparr> ex_store [[Fin 1]] = [[Fin 1]]"
proof -
  have d: "dec_init ex_D_mean = ''mean_ctx''"
    and f: "ff_dec_init ex_D_mean = Some \<lparr>ff_weight = P_ff_dec_init_weight, ff_fn = ex_ff\<rparr>"
    by (simp_all add: ex_D_mean_def)
  have "f_init ex_D_mean ex_store [[[Fin 1]], [[Fin 5]]] (Some [[Fin 1], [Fin 0]]) =
     Inr (Some [[Fin 6]])"
    by (simp add: f_init_mean_eq [OF d f] ex_shapes fsum_def ex_ff_dec_init)
  moreover have "masked_mean [[[Fin 1]], [[Fin 5]]] [[Fin 1], [Fin 0]] = [[Fin 1]]"
    by (simp add: masked_mean_def ex_shapes ex_valid_positions fsum_def)
  ultimately show ?thesis by (simp add: ex_ff_dec_init)
qed




end
